theory Spec2Isabelle
  imports Complex_Main "HOL-Library.Sublist"
begin

section \<open>Data model of \<^verbatim>\<open>weather.py\<close>\<close>

text \<open>
  A Python float is modelled by the real number it holds (infinities and NaN are left out),
  a Python string by a \<open>string\<close>. The classes of the
  source become records; the inheritance chain \<^verbatim>\<open>WeatherProvider\<close>,
  \<^verbatim>\<open>CachedWeatherProvider\<close>, \<^verbatim>\<open>CaiYunWeatherProvider\<close> becomes record extension.
\<close>

record Location =
  latitude :: real
  longitude :: real
  friendly_name :: "string option"

datatype Day =
    CLEAR | CLOUDY | LIGHTLY_RAINY | RAINY | HEAVILY_RAINY | SNOWY_RAINY
  | LIGHTLY_SNOWY | SNOWY | HEAVILY_SNOWY | HAZY | FOGGY | DUSTY | SANDY | WINDY | UNKNOWN

datatype TemperatureUnit = CELSIUS | FAHRENHEIT | KELVIN

datatype WeatherEffectiveness = CURRENT | HOURLY | DAILY | ANY

text \<open>The values \<^verbatim>\<open>json.loads\<close> produces. A dict is an association list read with \<open>map_of\<close>.\<close>

datatype json =
    JNull
  | JBool bool
  | JInt int
  | JFloat real
  | JStr string
  | JArr "json list"
  | JObj "(string \<times> json) list"

text \<open>The exceptions the modelled code can raise, with their arguments.\<close>

datatype error =
    IOError string
  | ValueError json
  | KeyError json
  | TypeError
  | IndexError
  | AttributeError
  | OverflowError

text \<open>
  A \<^verbatim>\<open>Weather\<close> object. The provider stores whatever value the payload holds for
  temperature, humidity and pressure, so these fields are JSON values; \<open>'tm\<close> is
  \<^verbatim>\<open>time.struct_time\<close>.
\<close>

record 'tm Weather =
  time :: 'tm
  effect :: WeatherEffectiveness
  day :: Day
  temperature :: json
  humidity :: json
  pressure :: json
  uv_index :: int

record WeatherProvider =
  location :: Location
  temperature_unit :: TemperatureUnit

record ('t, 'v) CachedWeatherProvider = WeatherProvider +
  cache_invalidation :: 't
  update_time :: "'t option"
  cache :: "'v option"

record ('t, 'v) CaiYunWeatherProvider = "('t, 'v) CachedWeatherProvider" +
  api_key :: string

record 'tm DirectWeatherProvider = WeatherProvider +
  weather :: "'tm Weather"

section \<open>Exceptions as values\<close>

definition bind_err :: "error + 'a \<Rightarrow> ('a \<Rightarrow> error + 'b) \<Rightarrow> error + 'b" where
  "bind_err m f = (case m of Inl e \<Rightarrow> Inl e | Inr x \<Rightarrow> f x)"

section \<open>Sky-condition classification\<close>

text \<open>
  \<^verbatim>\<open>str.lower\<close> on the ASCII letters; every other character is left as it is. The codes
  compared below are ASCII, and Python lower-cases no character outside ASCII to one of
  their letters without a character more, so the classification of a string with such
  characters is the same.
\<close>

definition lower_char :: "char \<Rightarrow> char" where
  "lower_char c =
     (let n = (of_char c :: nat) in if 65 \<le> n \<and> n \<le> 90 then char_of (n + 32) else c)"

definition lower :: "string \<Rightarrow> string" where
  "lower raw = map lower_char raw"

text \<open>\<^verbatim>\<open>sub in s\<close> on strings: some position of \<open>s\<close> starts a copy of \<open>sub\<close>.\<close>

fun str_in :: "string \<Rightarrow> string \<Rightarrow> bool" where
  "str_in sub [] = (sub = [])"
| "str_in sub (c # cs) = (prefix sub (c # cs) \<or> str_in sub cs)"

definition caiyun_get_day :: "string \<Rightarrow> Day" where
  "caiyun_get_day raw0 =
     (let raw = lower raw0 in
      if str_in ''clear'' raw then CLEAR
      else if str_in ''cloudy'' raw then CLOUDY
      else if str_in ''haze'' raw then HAZY
      else if raw = ''light_rain'' then LIGHTLY_RAINY
      else if raw = ''moderate_rain'' then RAINY
      else if raw = ''heavy_rain'' \<or> raw = ''storm_rain'' then HEAVILY_RAINY
      else if raw = ''fog'' then FOGGY
      else if raw = ''light_snow'' then LIGHTLY_SNOWY
      else if raw = ''moderate_snow'' then SNOWY
      else if raw = ''heavy_snow'' \<or> raw = ''storm_snow'' then HEAVILY_SNOWY
      else if raw = ''dust'' then DUSTY
      else if raw = ''sand'' then SANDY
      else if raw = ''wind'' then WINDY
      else UNKNOWN)"

section \<open>Python operations on JSON values\<close>

text \<open>\<^verbatim>\<open>obj[key]\<close> with a string key: only a dict accepts it.\<close>

definition getitem_key :: "json \<Rightarrow> string \<Rightarrow> error + json" where
  "getitem_key obj k =
     (case obj of
        JObj kvs \<Rightarrow> (case map_of kvs k of Some v \<Rightarrow> Inr v | None \<Rightarrow> Inl (KeyError (JStr k)))
      | _ \<Rightarrow> Inl TypeError)"

text \<open>
  \<^verbatim>\<open>obj[i]\<close> with an index from \<^verbatim>\<open>range\<close>: a list or a string is read at \<open>i\<close>, a dict
  has string keys only.
\<close>

definition getitem_index :: "json \<Rightarrow> nat \<Rightarrow> error + json" where
  "getitem_index obj i =
     (case obj of
        JArr xs \<Rightarrow> if i < length xs then Inr (xs ! i) else Inl IndexError
      | JStr s \<Rightarrow> if i < length s then Inr (JStr [s ! i]) else Inl IndexError
      | JObj kvs \<Rightarrow> Inl (KeyError (JInt (int i)))
      | _ \<Rightarrow> Inl TypeError)"

text \<open>\<^verbatim>\<open>k in obj\<close> for a string \<open>k\<close>: a key of a dict, an element of a list, a substring.\<close>

definition contains_key :: "string \<Rightarrow> json \<Rightarrow> error + bool" where
  "contains_key k obj =
     (case obj of
        JObj kvs \<Rightarrow> Inr (map_of kvs k \<noteq> None)
      | JArr xs \<Rightarrow> Inr (JStr k \<in> set xs)
      | JStr s \<Rightarrow> Inr (str_in k s)
      | _ \<Rightarrow> Inl TypeError)"

definition py_len :: "json \<Rightarrow> error + nat" where
  "py_len obj =
     (case obj of
        JArr xs \<Rightarrow> Inr (length xs)
      | JStr s \<Rightarrow> Inr (length s)
      | JObj kvs \<Rightarrow> Inr (length (remdups (map fst kvs)))
      | _ \<Rightarrow> Inl TypeError)"

text \<open>\<^verbatim>\<open>int(x)\<close> on a float discards the fractional part (rounds toward zero).\<close>

definition int_float :: "real \<Rightarrow> int" where
  "int_float r = (if 0 \<le> r then \<lfloor>r\<rfloor> else \<lceil>r\<rceil>)"

text \<open>
  Float arithmetic. A double is an integer below \<open>2 ^ 53\<close> in magnitude, scaled by a power of
  two with an exponent from \<open>- 1074\<close> to \<open>971\<close>. A division in Python gives the exact quotient
  rounded to a double (IEEE 754 binary64: to the nearest, a tie to the even integer): the
  quotient is divided by its unit in the last place, a power of two with exponent
  \<open>- 1074\<close> at least, and rounded to an integer. A result of magnitude \<open>2 ^ 1024\<close> or more is
  no double: the division of an integer then raises \<^verbatim>\<open>OverflowError\<close>, and the division
  of a double by 100 never gets there.
\<close>

definition is_double :: "real \<Rightarrow> bool" where
  "is_double x \<longleftrightarrow>
     (\<exists>m e :: int. \<bar>m\<bar> < 2 ^ 53 \<and> - 1074 \<le> e \<and> e \<le> 971 \<and> x = of_int m * 2 powi e)"

definition double_limit :: real where
  "double_limit = 2 ^ 1024"

definition ulp_exponent :: "real \<Rightarrow> int" where
  "ulp_exponent x = max (\<lfloor>log 2 \<bar>x\<bar>\<rfloor> - 52) (- 1074)"

definition round_half_even :: "real \<Rightarrow> int" where
  "round_half_even y =
     (let n = \<lfloor>y\<rfloor> in
      if y - of_int n < 1 / 2 then n
      else if 1 / 2 < y - of_int n then n + 1
      else if even n then n else n + 1)"

definition to_double :: "real \<Rightarrow> error + real" where
  "to_double x =
     (if x = 0 then Inr 0
      else
        let e = ulp_exponent x;
            m = round_half_even (\<bar>x\<bar> / 2 powi e);
            q = sgn x * of_int m * 2 powi e
        in if double_limit \<le> \<bar>q\<bar> then Inl OverflowError else Inr q)"

text \<open>
  \<^verbatim>\<open>x / 100\<close>: true division of a number (a bool is a number in Python), rounded to a
  double.
\<close>

definition div100 :: "json \<Rightarrow> error + json" where
  "div100 x =
     (case x of
        JInt i \<Rightarrow> map_sum id JFloat (to_double (real_of_int i / 100))
      | JFloat r \<Rightarrow> map_sum id JFloat (to_double (r / 100))
      | JBool b \<Rightarrow> map_sum id JFloat (to_double ((if b then 1 else 0) / 100))
      | _ \<Rightarrow> Inl TypeError)"

section \<open>The world outside the program\<close>

text \<open>
  The library functions the provider calls are parameters. Those with an effect
  (\<^verbatim>\<open>requests.get\<close>, \<^verbatim>\<open>time.time\<close>, \<^verbatim>\<open>time.localtime\<close>) pass a world \<open>'u\<close> along;
  \<^verbatim>\<open>fromisoformat\<close> stands for \<^verbatim>\<open>datetime.fromisoformat(s).timetuple()\<close>,
  \<^verbatim>\<open>str_float\<close> for the formatting of a float in an f-string and \<^verbatim>\<open>int_str\<close> for
  \<^verbatim>\<open>int\<close> applied to a string.
\<close>

record response =
  ok :: bool
  response_text :: string

record ('u, 't, 'tm) env =
  requests_get :: "string \<Rightarrow> 'u \<Rightarrow> (error + response) \<times> 'u"
  json_loads :: "string \<Rightarrow> error + json"
  pytime_time :: "'u \<Rightarrow> 't \<times> 'u"
  pytime_localtime :: "'u \<Rightarrow> 'tm \<times> 'u"
  fromisoformat :: "string \<Rightarrow> error + 'tm"
  str_float :: "real \<Rightarrow> string"
  int_str :: "string \<Rightarrow> error + int"

definition py_int :: "('u, 't, 'tm) env \<Rightarrow> json \<Rightarrow> error + int" where
  "py_int env x =
     (case x of
        JInt i \<Rightarrow> Inr i
      | JFloat r \<Rightarrow> Inr (int_float r)
      | JBool b \<Rightarrow> Inr (if b then 1 else 0)
      | JStr s \<Rightarrow> int_str env s
      | _ \<Rightarrow> Inl TypeError)"

section \<open>Providers\<close>

text \<open>
  Constructors. A default argument is supplied by the caller: 3600 for
  \<^verbatim>\<open>cache_invalidate_interval\<close>, \<open>None\<close> below for the location of the direct provider.
\<close>

definition WeatherProvider_init :: "Location \<Rightarrow> TemperatureUnit \<Rightarrow> WeatherProvider" where
  "WeatherProvider_init loc unit = \<lparr>location = loc, temperature_unit = unit\<rparr>"

definition CachedWeatherProvider_init ::
  "Location \<Rightarrow> TemperatureUnit \<Rightarrow> 't \<Rightarrow> ('t, 'v) CachedWeatherProvider" where
  "CachedWeatherProvider_init loc unit cache_invalidate_interval =
     \<lparr>location = loc, temperature_unit = unit,
      cache_invalidation = cache_invalidate_interval, update_time = None, cache = None\<rparr>"

definition CaiYunWeatherProvider_init ::
  "Location \<Rightarrow> string \<Rightarrow> 't \<Rightarrow> ('t, 'v) CaiYunWeatherProvider" where
  "CaiYunWeatherProvider_init loc key cache_invalidate_interval =
     \<lparr>location = loc, temperature_unit = CELSIUS,
      cache_invalidation = cache_invalidate_interval, update_time = None, cache = None,
      api_key = key\<rparr>"

definition DirectWeatherProvider_init ::
  "'tm Weather \<Rightarrow> Location option \<Rightarrow> 'tm DirectWeatherProvider" where
  "DirectWeatherProvider_init w loc =
     \<lparr>location =
        (case loc of
           None \<Rightarrow> \<lparr>latitude = 0, longitude = 0, friendly_name = Some ''Test Land''\<rparr>
         | Some l \<Rightarrow> l),
      temperature_unit = CELSIUS, weather = w\<rparr>"

definition get_location :: "'z WeatherProvider_scheme \<Rightarrow> Location" where
  "get_location self = location self"

definition get_temperature_unit :: "'z WeatherProvider_scheme \<Rightarrow> TemperatureUnit" where
  "get_temperature_unit self = temperature_unit self"

subsection \<open>The cached provider\<close>

text \<open>
  \<^verbatim>\<open>CachedWeatherProvider.get_weather\<close>. The clock is read in the freshness test only when
  a timestamp is stored (\<^verbatim>\<open>and\<close> does not evaluate its right side otherwise), and once more
  for the new timestamp, which is stored before the hook \<^verbatim>\<open>invalidate\<close> runs. A hit returns
  the cache field as it is, \<open>None\<close> included. The result is the returned value or the
  exception, the provider afterwards, and the world afterwards.
\<close>

definition get_weather ::
  "('u \<Rightarrow> 't \<times> 'u) \<Rightarrow>
   (('t, 'v, 'z) CachedWeatherProvider_scheme \<Rightarrow> 'u \<Rightarrow> (error + 'v) \<times> 'u) \<Rightarrow>
   ('t :: {minus, ord}, 'v, 'z) CachedWeatherProvider_scheme \<Rightarrow> 'u \<Rightarrow>
   (error + 'v option) \<times> ('t, 'v, 'z) CachedWeatherProvider_scheme \<times> 'u" where
  "get_weather time_time invalidate_hook self u =
     (let fetch = (\<lambda>u0.
            case time_time u0 of (stamp, u1) \<Rightarrow>
              let self1 = self\<lparr>update_time := Some stamp\<rparr> in
              (case invalidate_hook self1 u1 of
                 (Inl e, u2) \<Rightarrow> (Inl e, self1, u2)
               | (Inr new_data, u2) \<Rightarrow>
                   (Inr (Some new_data), self1\<lparr>cache := Some new_data\<rparr>, u2)))
      in case update_time self of
           None \<Rightarrow> fetch u
         | Some t \<Rightarrow>
             (case time_time u of (now, u1) \<Rightarrow>
                if now - t < cache_invalidation self then (Inr (cache self), self, u1)
                else fetch u1))"

subsection \<open>The direct provider\<close>

definition get_weather_direct ::
  "'tm DirectWeatherProvider \<Rightarrow> 'tm Weather list \<times> 'tm DirectWeatherProvider" where
  "get_weather_direct self = ([weather self], self)"

subsection \<open>The CaiYun provider\<close>

definition get_api_url :: "('u, 't, 'tm) env \<Rightarrow> ('t, 'v) CaiYunWeatherProvider \<Rightarrow> string" where
  "get_api_url env self =
     ''https://api.caiyunapp.com/v2.6/'' @ api_key self @ ''/'' @
     str_float env (longitude (get_location self)) @ '','' @
     str_float env (latitude (get_location self))"

text \<open>The address \<^verbatim>\<open>invalidate\<close> requests.\<close>

definition weather_url :: "('u, 't, 'tm) env \<Rightarrow> ('t, 'v) CaiYunWeatherProvider \<Rightarrow> string" where
  "weather_url env self =
     get_api_url env self @ ''/weather?dailysteps=3&hourlysteps=24&minutely=false''"

text \<open>\<^verbatim>\<open>__caiyun_get_day\<close> applied to a payload value: only a string has \<^verbatim>\<open>lower\<close>.\<close>

definition caiyun_get_day_of :: "json \<Rightarrow> error + Day" where
  "caiyun_get_day_of raw = (case raw of JStr s \<Rightarrow> Inr (caiyun_get_day s) | _ \<Rightarrow> Inl AttributeError)"

definition fromisoformat_of :: "('u, 't, 'tm) env \<Rightarrow> json \<Rightarrow> error + 'tm" where
  "fromisoformat_of env x = (case x of JStr s \<Rightarrow> fromisoformat env s | _ \<Rightarrow> Inl TypeError)"

definition pick :: "json \<Rightarrow> error + json" where
  "pick unit =
     bind_err (contains_key ''value'' unit) (\<lambda>has_value.
       if has_value then getitem_key unit ''value''
       else bind_err (contains_key ''avg'' unit) (\<lambda>has_avg.
         if has_avg then getitem_key unit ''avg''
         else Inl (ValueError unit)))"

text \<open>\<^verbatim>\<open>pick(source[name][i])\<close>.\<close>

definition pick_at :: "json \<Rightarrow> string \<Rightarrow> nat \<Rightarrow> error + json" where
  "pick_at source name i =
     bind_err (getitem_key source name) (\<lambda>series.
     bind_err (getitem_index series i) pick)"

text \<open>The body of the loop of \<^verbatim>\<open>parse\<close> at index \<open>i\<close>: the record it appends.\<close>

definition parse_entry ::
  "('u, 't, 'tm) env \<Rightarrow> json \<Rightarrow> WeatherEffectiveness \<Rightarrow> nat \<Rightarrow> error + 'tm Weather" where
  "parse_entry env source eff i =
     bind_err (getitem_key source ''precipitation'') (\<lambda>series.
     bind_err (getitem_index series i) (\<lambda>precipitation.
     bind_err (contains_key ''datetime'' precipitation) (\<lambda>has_datetime.
     bind_err
       (if has_datetime
        then bind_err (getitem_key precipitation ''datetime'') (fromisoformat_of env)
        else bind_err (contains_key ''date'' precipitation) (\<lambda>has_date.
          if has_date
          then bind_err (getitem_key precipitation ''date'') (fromisoformat_of env)
          else Inl (ValueError precipitation))) (\<lambda>tm.
     bind_err (pick_at source ''temperature'' i) (\<lambda>temperature_v.
     bind_err (pick_at source ''humidity'' i) (\<lambda>humidity_v.
     bind_err (pick_at source ''skycon'' i) (\<lambda>sky_con.
     bind_err (pick_at source ''pressure'' i) (\<lambda>pressure_v.
     bind_err (caiyun_get_day_of sky_con) (\<lambda>d.
       Inr \<lparr>time = tm, effect = eff, day = d, temperature = temperature_v,
            humidity = humidity_v, pressure = pressure_v, uv_index = - 1\<rparr>)))))))))"

text \<open>The loop of \<^verbatim>\<open>parse\<close> over the indices still to visit; an exception ends it.\<close>

fun parse_loop ::
  "('u, 't, 'tm) env \<Rightarrow> json \<Rightarrow> WeatherEffectiveness \<Rightarrow> nat list \<Rightarrow> 'tm Weather list \<Rightarrow>
   error + 'tm Weather list" where
  "parse_loop env source eff [] target_set = Inr target_set"
| "parse_loop env source eff (i # rest) target_set =
     (case parse_entry env source eff i of
        Inl e \<Rightarrow> Inl e
      | Inr w \<Rightarrow> parse_loop env source eff rest (target_set @ [w]))"

definition parse ::
  "('u, 't, 'tm) env \<Rightarrow> 'tm Weather list \<Rightarrow> json \<Rightarrow> WeatherEffectiveness \<Rightarrow>
   error + 'tm Weather list" where
  "parse env target_set source eff =
     bind_err (getitem_key source ''precipitation'') (\<lambda>series.
     bind_err (py_len series) (\<lambda>n.
       parse_loop env source eff [0..<n] target_set))"

text \<open>The \<^verbatim>\<open>Weather(...)\<close> built from the realtime section, its arguments in source order.\<close>

definition current_weather_of ::
  "('u, 't, 'tm) env \<Rightarrow> 'tm \<Rightarrow> json \<Rightarrow> error + 'tm Weather" where
  "current_weather_of env now result_realtime =
     bind_err (getitem_key result_realtime ''temperature'') (\<lambda>temperature_v.
     bind_err (getitem_key result_realtime ''skycon'') (\<lambda>sky_con.
     bind_err (caiyun_get_day_of sky_con) (\<lambda>d.
     bind_err (getitem_key result_realtime ''humidity'') (\<lambda>humidity_v.
     bind_err (getitem_key result_realtime ''pressure'') (\<lambda>pressure_raw.
     bind_err (div100 pressure_raw) (\<lambda>pressure_v.
     bind_err (getitem_key result_realtime ''life_index'') (\<lambda>life_index.
     bind_err (getitem_key life_index ''ultraviolet'') (\<lambda>ultraviolet.
     bind_err (getitem_key ultraviolet ''index'') (\<lambda>index_raw.
     bind_err (py_int env index_raw) (\<lambda>uv.
       Inr \<lparr>time = now, effect = CURRENT, day = d, temperature = temperature_v,
            humidity = humidity_v, pressure = pressure_v, uv_index = uv\<rparr>))))))))))"

text \<open>The three sections of the decoded response.\<close>

definition sections_of :: "json \<Rightarrow> error + json \<times> json \<times> json" where
  "sections_of api_callback =
     bind_err (getitem_key api_callback ''result'') (\<lambda>r1.
     bind_err (getitem_key r1 ''realtime'') (\<lambda>result_realtime.
     bind_err (getitem_key api_callback ''result'') (\<lambda>r2.
     bind_err (getitem_key r2 ''hourly'') (\<lambda>result_hourly.
     bind_err (getitem_key api_callback ''result'') (\<lambda>r3.
     bind_err (getitem_key r3 ''daily'') (\<lambda>result_daily.
       Inr (result_realtime, result_hourly, result_daily)))))))"

text \<open>\<^verbatim>\<open>CaiYunWeatherProvider.invalidate\<close>.\<close>

definition invalidate ::
  "('u, 't, 'tm) env \<Rightarrow> ('t, 'v) CaiYunWeatherProvider \<Rightarrow> 'u \<Rightarrow>
   (error + 'tm Weather list) \<times> 'u" where
  "invalidate env self u =
     (case requests_get env (weather_url env self) u of
        (Inl e, u1) \<Rightarrow> (Inl e, u1)
      | (Inr resp, u1) \<Rightarrow>
          if \<not> ok resp then (Inl (IOError ''Realtime API not responding''), u1)
          else
            (case bind_err (json_loads env (response_text resp)) sections_of of
               Inl e \<Rightarrow> (Inl e, u1)
             | Inr (result_realtime, result_hourly, result_daily) \<Rightarrow>
                 (case pytime_localtime env u1 of (now, u2) \<Rightarrow>
                    (bind_err (current_weather_of env now result_realtime) (\<lambda>current_weather.
                     bind_err (parse env [] result_hourly HOURLY) (\<lambda>hourly_weather.
                     bind_err (parse env [] result_daily DAILY) (\<lambda>daily_weather.
                       Inr ([current_weather] @ hourly_weather @ daily_weather)))), u2))))"

text \<open>\<^verbatim>\<open>get_weather\<close> of the CaiYun provider: the inherited method with its own hook.\<close>

definition get_weather_caiyun ::
  "('u, 't :: {minus, ord}, 'tm) env \<Rightarrow> ('t, 'tm Weather list) CaiYunWeatherProvider \<Rightarrow> 'u \<Rightarrow>
   (error + 'tm Weather list option) \<times> ('t, 'tm Weather list) CaiYunWeatherProvider \<times> 'u" where
  "get_weather_caiyun env self u = get_weather (pytime_time env) (invalidate env) self u"

section \<open>The classification as the specification words it\<close>

text \<open>
  The finer codes and their categories, matched exactly; the three coarse categories are
  matched by substring (\<open>sublist\<close>: a contiguous part) before the table is consulted.
\<close>

definition exact_codes :: "(string \<times> Day) list" where
  "exact_codes =
     [(''light_rain'', LIGHTLY_RAINY), (''moderate_rain'', RAINY),
      (''heavy_rain'', HEAVILY_RAINY), (''storm_rain'', HEAVILY_RAINY),
      (''fog'', FOGGY),
      (''light_snow'', LIGHTLY_SNOWY), (''moderate_snow'', SNOWY),
      (''heavy_snow'', HEAVILY_SNOWY), (''storm_snow'', HEAVILY_SNOWY),
      (''dust'', DUSTY), (''sand'', SANDY), (''wind'', WINDY)]"

definition classify_spec :: "string \<Rightarrow> Day" where
  "classify_spec raw =
     (let code = lower raw in
      if sublist ''clear'' code then CLEAR
      else if sublist ''cloudy'' code then CLOUDY
      else if sublist ''haze'' code then HAZY
      else (case map_of exact_codes code of Some d \<Rightarrow> d | None \<Rightarrow> UNKNOWN))"

section \<open>Reading the payload of a refresh\<close>

text \<open>
  The decoded response of the request \<^verbatim>\<open>invalidate\<close> makes, and the two realtime fields
  of it that the properties below name.
\<close>

definition payload_of ::
  "('u, 't, 'tm) env \<Rightarrow> ('t, 'v) CaiYunWeatherProvider \<Rightarrow> 'u \<Rightarrow> error + json" where
  "payload_of env self u =
     (case requests_get env (weather_url env self) u of
        (Inl e, u1) \<Rightarrow> Inl e
      | (Inr resp, u1) \<Rightarrow> json_loads env (response_text resp))"

definition payload_realtime :: "json \<Rightarrow> error + json" where
  "payload_realtime api_callback =
     bind_err (getitem_key api_callback ''result'') (\<lambda>r. getitem_key r ''realtime'')"

definition payload_pressure :: "json \<Rightarrow> error + json" where
  "payload_pressure api_callback =
     bind_err (payload_realtime api_callback) (\<lambda>rt. getitem_key rt ''pressure'')"

definition payload_uv :: "json \<Rightarrow> error + json" where
  "payload_uv api_callback =
     bind_err (payload_realtime api_callback) (\<lambda>rt.
     bind_err (getitem_key rt ''life_index'') (\<lambda>life_index.
     bind_err (getitem_key life_index ''ultraviolet'') (\<lambda>ultraviolet.
       getitem_key ultraviolet ''index'')))"

text \<open>The place of an effectiveness in the order current, hourly, daily.\<close>

fun effect_rank :: "WeatherEffectiveness \<Rightarrow> nat" where
  "effect_rank CURRENT = 0"
| "effect_rank HOURLY = 1"
| "effect_rank DAILY = 2"
| "effect_rank ANY = 3"

section \<open>Counting upstream calls\<close>

text \<open>
  A world with a counter in front. \<open>counting\<close> makes a hook add one to the counter each
  time it runs; \<open>not_counting\<close> lets the clock run on such a world and leaves the counter.
\<close>

definition not_counting :: "('u \<Rightarrow> 'r \<times> 'u) \<Rightarrow> nat \<times> 'u \<Rightarrow> 'r \<times> nat \<times> 'u" where
  "not_counting f = (\<lambda>(n, u). case f u of (r, u') \<Rightarrow> (r, n, u'))"

definition counting :: "('s \<Rightarrow> 'u \<Rightarrow> 'r \<times> 'u) \<Rightarrow> 's \<Rightarrow> nat \<times> 'u \<Rightarrow> 'r \<times> nat \<times> 'u" where
  "counting hook self = (\<lambda>(n, u). case hook self u of (r, u') \<Rightarrow> (r, Suc n, u'))"

section \<open>Sample runs\<close>

text \<open>
  A world that is the wall-clock time in seconds, an upstream that answers with a value that
  depends on the time, and an upstream that is down.
\<close>

definition wall_clock :: "int \<Rightarrow> int \<times> int" where
  "wall_clock t = (t, t)"

definition upstream_ok :: "'s \<Rightarrow> int \<Rightarrow> (error + int) \<times> int" where
  "upstream_ok self t = (Inr (100 + t), t)"

definition upstream_down :: "'s \<Rightarrow> int \<Rightarrow> (error + int) \<times> int" where
  "upstream_down self t = (Inl (IOError ''Realtime API not responding''), t)"

definition sample_location :: Location where
  "sample_location = \<lparr>latitude = 0, longitude = 0, friendly_name = None\<rparr>"

text \<open>A cached provider with a lifespan of ten seconds that fetched the value 7 at time 0.\<close>

definition warm_provider :: "(int, int) CachedWeatherProvider" where
  "warm_provider =
     (CachedWeatherProvider_init sample_location CELSIUS 10)
       \<lparr>update_time := Some 0, cache := Some 7\<rparr>"

text \<open>A cached provider with a lifespan of an hour that has not fetched yet.\<close>

definition cold_provider :: "(int, int) CachedWeatherProvider" where
  "cold_provider = CachedWeatherProvider_init sample_location CELSIUS 3600"

text \<open>A payload in the shape of the CaiYun API, with two hourly entries and one daily entry.\<close>

definition sample_entry :: "string \<Rightarrow> string \<Rightarrow> string \<Rightarrow> json \<Rightarrow> json" where
  "sample_entry time_key stamp value_key v = JObj [(time_key, JStr stamp), (value_key, v)]"

definition sample_hourly :: json where
  "sample_hourly = JObj
     [(''precipitation'',
         JArr [sample_entry ''datetime'' ''2026-01-01T10:00+08:00'' ''value'' (JInt 0),
               sample_entry ''datetime'' ''2026-01-01T11:00+08:00'' ''value'' (JFloat 0.5)]),
      (''temperature'',
         JArr [sample_entry ''datetime'' ''2026-01-01T10:00+08:00'' ''value'' (JInt 20),
               sample_entry ''datetime'' ''2026-01-01T11:00+08:00'' ''value'' (JInt 21)]),
      (''humidity'',
         JArr [sample_entry ''datetime'' ''2026-01-01T10:00+08:00'' ''value'' (JFloat 0.4),
               sample_entry ''datetime'' ''2026-01-01T11:00+08:00'' ''value'' (JFloat 0.5)]),
      (''skycon'',
         JArr [sample_entry ''datetime'' ''2026-01-01T10:00+08:00'' ''value'' (JStr ''LIGHT_RAIN''),
               sample_entry ''datetime'' ''2026-01-01T11:00+08:00'' ''value'' (JStr ''thundersnow'')]),
      (''pressure'',
         JArr [sample_entry ''datetime'' ''2026-01-01T10:00+08:00'' ''value'' (JInt 101300),
               sample_entry ''datetime'' ''2026-01-01T11:00+08:00'' ''value'' (JInt 101200)])]"

definition sample_daily :: json where
  "sample_daily = JObj
     [(''precipitation'', JArr [sample_entry ''date'' ''2026-01-01T00:00+08:00'' ''avg'' (JInt 0)]),
      (''temperature'', JArr [sample_entry ''date'' ''2026-01-01T00:00+08:00'' ''avg'' (JInt 5)]),
      (''humidity'', JArr [sample_entry ''date'' ''2026-01-01T00:00+08:00'' ''avg'' (JFloat 0.5)]),
      (''skycon'',
         JArr [sample_entry ''date'' ''2026-01-01T00:00+08:00'' ''value'' (JStr ''PARTLY_CLOUDY_DAY'')]),
      (''pressure'', JArr [sample_entry ''date'' ''2026-01-01T00:00+08:00'' ''avg'' (JInt 101000)])]"

definition sample_payload :: "json \<Rightarrow> json \<Rightarrow> json" where
  "sample_payload pressure_v uv =
     JObj [(''status'', JStr ''ok''),
           (''result'', JObj
              [(''realtime'', JObj
                  [(''temperature'', JFloat 21.5), (''skycon'', JStr ''CLOUDY''),
                   (''humidity'', JFloat 0.4), (''pressure'', pressure_v),
                   (''life_index'',
                      JObj [(''ultraviolet'', JObj [(''index'', uv), (''desc'', JStr ''weak'')])])]),
               (''hourly'', sample_hourly),
               (''daily'', sample_daily)])]"

text \<open>
  Library functions for the sample runs: the request answers with the given status, the
  decoder gives the given payload, and a timestamp is kept as the string it was read from.
\<close>

definition sample_env :: "bool \<Rightarrow> json \<Rightarrow> (int, int, string) env" where
  "sample_env status payload =
     \<lparr>requests_get = (\<lambda>url t. (Inr \<lparr>ok = status, response_text = ''payload''\<rparr>, t)),
      json_loads = (\<lambda>s. Inr payload),
      pytime_time = wall_clock,
      pytime_localtime = (\<lambda>t. (''now'', t)),
      fromisoformat = (\<lambda>s. Inr s),
      str_float = (\<lambda>r. ''0.0''),
      int_str = (\<lambda>s. Inl (ValueError (JStr s)))\<rparr>"

definition sample_provider :: "(int, string Weather list) CaiYunWeatherProvider" where
  "sample_provider = CaiYunWeatherProvider_init sample_location ''key'' 3600"

text \<open>What the refresh makes of the sample payload, given the realtime pressure and UV index.\<close>

definition sample_result :: "json \<Rightarrow> int \<Rightarrow> string Weather list" where
  "sample_result pressure_v uv =
     [\<lparr>time = ''now'', effect = CURRENT, day = CLOUDY, temperature = JFloat 21.5,
       humidity = JFloat 0.4, pressure = pressure_v, uv_index = uv\<rparr>,
      \<lparr>time = ''2026-01-01T10:00+08:00'', effect = HOURLY, day = LIGHTLY_RAINY,
       temperature = JInt 20, humidity = JFloat 0.4, pressure = JInt 101300, uv_index = - 1\<rparr>,
      \<lparr>time = ''2026-01-01T11:00+08:00'', effect = HOURLY, day = UNKNOWN,
       temperature = JInt 21, humidity = JFloat 0.5, pressure = JInt 101200, uv_index = - 1\<rparr>,
      \<lparr>time = ''2026-01-01T00:00+08:00'', effect = DAILY, day = CLOUDY,
       temperature = JInt 5, humidity = JFloat 0.5, pressure = JInt 101000, uv_index = - 1\<rparr>]"

text \<open>\<open>n\<close> calls of the direct provider in a row: the values returned and the provider left.\<close>

fun get_weather_direct_times ::
  "nat \<Rightarrow> 'tm DirectWeatherProvider \<Rightarrow> 'tm Weather list list \<times> 'tm DirectWeatherProvider" where
  "get_weather_direct_times 0 self = ([], self)"
| "get_weather_direct_times (Suc n) self =
     (case get_weather_direct self of (r, self1) \<Rightarrow>
        (case get_weather_direct_times n self1 of (rs, self2) \<Rightarrow> (r # rs, self2)))"

section \<open>Verified properties\<close>

subsection \<open>Classification\<close>

lemma str_in_sublist: "str_in sub s = sublist sub s"
  by (induction s) (auto simp: sublist_Cons_right)

lemma caiyun_get_day_refines: "caiyun_get_day raw = classify_spec raw"
  unfolding caiyun_get_day_def classify_spec_def exact_codes_def Let_def str_in_sublist
  by simp

text \<open>
  C3. For every raw sky-condition string the classification lower-cases it, matches
  \<open>clear\<close>, \<open>cloudy\<close> and \<open>haze\<close> by substring before the exact codes of the table, and gives
  \<open>UNKNOWN\<close> for a string that matches nothing; it is a total function of the string, so it
  raises nothing and the same string always gives the same \<open>Day\<close>. The three scenarios of
  the specification are instances.
\<close>

theorem caiyun_get_day_classifies:
  "caiyun_get_day raw = classify_spec raw
   \<and> (\<not> sublist ''clear'' (lower raw) \<and> \<not> sublist ''cloudy'' (lower raw)
        \<and> \<not> sublist ''haze'' (lower raw) \<and> lower raw \<notin> fst ` set exact_codes
        \<longrightarrow> caiyun_get_day raw = UNKNOWN)
   \<and> caiyun_get_day ''CLOUDY'' = CLOUDY
   \<and> caiyun_get_day ''light_rain'' = LIGHTLY_RAINY
   \<and> caiyun_get_day ''thundersnow'' = UNKNOWN"
proof -
  have refines: "caiyun_get_day raw = classify_spec raw"
    by (rule caiyun_get_day_refines)
  have unmatched: "\<not> sublist ''clear'' (lower raw) \<and> \<not> sublist ''cloudy'' (lower raw)
        \<and> \<not> sublist ''haze'' (lower raw) \<and> lower raw \<notin> fst ` set exact_codes
        \<longrightarrow> caiyun_get_day raw = UNKNOWN"
    unfolding refines classify_spec_def Let_def
    by (auto simp: map_of_eq_None_iff [symmetric] simp del: map_of_eq_None_iff)
  have cloudy: "caiyun_get_day ''CLOUDY'' = CLOUDY" by code_simp
  have light_rain: "caiyun_get_day ''light_rain'' = LIGHTLY_RAINY" by code_simp
  have thundersnow: "caiyun_get_day ''thundersnow'' = UNKNOWN" by code_simp
  show ?thesis using refines unmatched cloudy light_rain thundersnow by blast
qed

theorem caiyun_get_day_classifies_witness:
  "\<not> sublist ''clear'' (lower ''Thundersnow'') \<and> \<not> sublist ''cloudy'' (lower ''Thundersnow'')
   \<and> \<not> sublist ''haze'' (lower ''Thundersnow'') \<and> lower ''Thundersnow'' \<notin> fst ` set exact_codes
   \<and> caiyun_get_day ''Thundersnow'' = UNKNOWN
   \<and> caiyun_get_day ''Thundersnow'' = classify_spec ''Thundersnow''"
proof -
  have low: "lower ''Thundersnow'' = ''thundersnow''" by code_simp
  have hyp: "\<not> sublist ''clear'' ''thundersnow'' \<and> \<not> sublist ''cloudy'' ''thundersnow''
       \<and> \<not> sublist ''haze'' ''thundersnow'' \<and> ''thundersnow'' \<notin> fst ` set exact_codes"
    by (simp add: exact_codes_def sublist_code)
  show ?thesis using caiyun_get_day_classifies [of "''Thundersnow''"] hyp unfolding low by blast
qed

subsection \<open>Exceptions, the parser and a successful refresh\<close>

lemma bind_err_Inr: "bind_err m f = Inr y \<longleftrightarrow> (\<exists>x. m = Inr x \<and> f x = Inr y)"
  by (cases m) (simp_all add: bind_err_def)

lemma bind_err_simps: "bind_err (Inl e) f = Inl e" "bind_err (Inr x) f = f x"
  by (simp_all add: bind_err_def)

lemma parse_entry_fields:
  assumes "parse_entry env source eff i = Inr w"
  shows "effect w = eff \<and> uv_index w = - 1"
  using assms unfolding parse_entry_def bind_err_Inr by auto

lemma parse_loop_appends:
  "parse_loop env source eff idxs acc = Inr ws \<Longrightarrow>
   \<exists>new. ws = acc @ new \<and> length new = length idxs
         \<and> (\<forall>w \<in> set new. effect w = eff \<and> uv_index w = - 1)"
proof (induction idxs arbitrary: acc)
  case Nil
  then show ?case by simp
next
  case (Cons i rest)
  from Cons.prems obtain w where w: "parse_entry env source eff i = Inr w"
    and rest: "parse_loop env source eff rest (acc @ [w]) = Inr ws"
    by (auto split: sum.splits)
  from Cons.IH [OF rest] obtain new where new: "ws = (acc @ [w]) @ new" "length new = length rest"
    "\<forall>x \<in> set new. effect x = eff \<and> uv_index x = - 1" by blast
  have "ws = acc @ (w # new)" using new(1) by simp
  moreover have "length (w # new) = length (i # rest)" using new(2) by simp
  moreover have "\<forall>x \<in> set (w # new). effect x = eff \<and> uv_index x = - 1"
    using new(3) parse_entry_fields [OF w] by simp
  ultimately show ?case by blast
qed

lemma parse_records:
  assumes "parse env [] source eff = Inr ws"
  shows "\<forall>w \<in> set ws. effect w = eff \<and> uv_index w = - 1"
proof -
  from assms obtain n where "parse_loop env source eff [0..<n] [] = Inr ws"
    unfolding parse_def bind_err_Inr by blast
  from parse_loop_appends [OF this] show ?thesis by auto
qed

lemma parse_length:
  assumes "parse env [] source eff = Inr ws"
  shows "\<exists>series. getitem_key source ''precipitation'' = Inr series \<and> py_len series = Inr (length ws)"
proof -
  from assms obtain series n where s: "getitem_key source ''precipitation'' = Inr series"
    "py_len series = Inr n" "parse_loop env source eff [0..<n] [] = Inr ws"
    unfolding parse_def bind_err_Inr by blast
  from parse_loop_appends [OF s(3)] have "length ws = n" by auto
  with s show ?thesis by blast
qed

lemma current_weather_fields:
  assumes "current_weather_of env now rt = Inr c"
  shows "effect c = CURRENT \<and> time c = now
    \<and> (\<exists>p. getitem_key rt ''pressure'' = Inr p \<and> div100 p = Inr (pressure c))
    \<and> (\<exists>li uvo raw. getitem_key rt ''life_index'' = Inr li \<and> getitem_key li ''ultraviolet'' = Inr uvo
          \<and> getitem_key uvo ''index'' = Inr raw \<and> py_int env raw = Inr (uv_index c))"
  using assms unfolding current_weather_of_def bind_err_Inr by auto

lemma sections_of_realtime:
  assumes "sections_of api = Inr (rt, rh, rd)"
  shows "payload_realtime api = Inr rt"
  using assms unfolding sections_of_def payload_realtime_def bind_err_Inr by auto

lemma invalidate_success:
  assumes "invalidate env self u = (Inr ws, u')"
  shows "\<exists>resp u1 api rt rh rd now c hs ds.
     requests_get env (weather_url env self) u = (Inr resp, u1) \<and> ok resp
     \<and> json_loads env (response_text resp) = Inr api
     \<and> sections_of api = Inr (rt, rh, rd)
     \<and> pytime_localtime env u1 = (now, u')
     \<and> current_weather_of env now rt = Inr c
     \<and> parse env [] rh HOURLY = Inr hs
     \<and> parse env [] rd DAILY = Inr ds
     \<and> ws = [c] @ hs @ ds"
proof -
  obtain r u1 where req: "requests_get env (weather_url env self) u = (r, u1)"
    by (cases "requests_get env (weather_url env self) u")
  with assms obtain resp where resp: "r = Inr resp" "ok resp"
    by (cases r) (auto simp: invalidate_def split: if_splits)
  from assms req resp obtain rt rh rd where
    sec: "bind_err (json_loads env (response_text resp)) sections_of = Inr (rt, rh, rd)"
    by (cases "bind_err (json_loads env (response_text resp)) sections_of")
       (auto simp: invalidate_def)
  then obtain api where api: "json_loads env (response_text resp) = Inr api"
    "sections_of api = Inr (rt, rh, rd)" unfolding bind_err_Inr by blast
  obtain now u2 where lt: "pytime_localtime env u1 = (now, u2)"
    by (cases "pytime_localtime env u1")
  from assms req resp sec lt have u2: "u2 = u'" and
    body: "bind_err (current_weather_of env now rt) (\<lambda>current_weather.
             bind_err (parse env [] rh HOURLY) (\<lambda>hourly_weather.
             bind_err (parse env [] rd DAILY) (\<lambda>daily_weather.
               Inr ([current_weather] @ hourly_weather @ daily_weather)))) = Inr ws"
    by (simp_all add: invalidate_def)
  from body obtain c hs ds where "current_weather_of env now rt = Inr c"
    "parse env [] rh HOURLY = Inr hs" "parse env [] rd DAILY = Inr ds" "ws = [c] @ hs @ ds"
    unfolding bind_err_Inr by auto
  with req resp api lt u2 show ?thesis by blast
qed

lemma sorted_constant:
  "\<forall>x \<in> set xs. f x = (k :: nat) \<Longrightarrow> sorted (map f xs)"
  by (induction xs) auto

lemma int_float_range: "0 \<le> r \<Longrightarrow> r < 11 \<Longrightarrow> 0 \<le> int_float r \<and> int_float r \<le> 10"
  unfolding int_float_def by (simp add: floor_less_iff [of r 11, simplified])

subsection \<open>Rounding to a double\<close>

lemma round_half_even_int: "round_half_even (of_int n) = n"
  by (simp add: round_half_even_def)



lemma log2_less:
  assumes "0 < x" "x < 2 powi k"
  shows "\<lfloor>log 2 x\<rfloor> < k"
proof -
  have "log 2 x < log 2 (2 powi k)" using assms by simp
  also have "\<dots> = k"
    using log_powr_cancel [of 2 "real_of_int k"] by (simp add: powr_real_of_int')
  finally show ?thesis by linarith
qed

lemma to_double_exact:
  assumes "is_double x"
  shows "to_double x = Inr x"
proof (cases "x = 0")
  case True
  then show ?thesis by (simp add: to_double_def)
next
  case False
  from assms obtain m e :: int where me: "\<bar>m\<bar> < 2 ^ 53" "- 1074 \<le> e" "e \<le> 971"
    "x = of_int m * 2 powi e" unfolding is_double_def by blast
  have abs: "\<bar>x\<bar> = of_int \<bar>m\<bar> * 2 powi e" unfolding me(4) by (simp add: abs_mult)
  have "of_int \<bar>m\<bar> < (2 :: real) ^ 53" using me(1) by (metis of_int_less_numeral_power_cancel_iff)
  then have "\<bar>x\<bar> < 2 ^ 53 * 2 powi e" unfolding abs by simp
  also have "\<dots> = 2 powi (53 + e)" by (simp add: power_int_add)
  finally have lt: "\<bar>x\<bar> < 2 powi (53 + e)" .
  have "\<lfloor>log 2 \<bar>x\<bar>\<rfloor> < 53 + e" using log2_less [OF _ lt] False by simp
  then have le: "ulp_exponent x \<le> e" using me(2) by (simp add: ulp_exponent_def)
  define d where "d = nat (e - ulp_exponent x)"
  have e: "e = ulp_exponent x + int d" using le by (simp add: d_def)
  have "\<bar>x\<bar> / 2 powi ulp_exponent x = of_int \<bar>m\<bar> * 2 ^ d"
    unfolding abs e by (simp add: power_int_add)
  also have "\<dots> = of_int (\<bar>m\<bar> * 2 ^ d)" by simp
  finally have m: "round_half_even (\<bar>x\<bar> / 2 powi ulp_exponent x) = \<bar>m\<bar> * 2 ^ d"
    by (simp only: round_half_even_int)
  have q: "sgn x * of_int (\<bar>m\<bar> * 2 ^ d) * 2 powi ulp_exponent x = x"
  proof -
    have "of_int (\<bar>m\<bar> * 2 ^ d) * 2 powi ulp_exponent x = \<bar>x\<bar>"
      unfolding abs e by (simp add: power_int_add)
    then show ?thesis by (simp add: mult.assoc sgn_mult_abs)
  qed
  have "2 powi (53 + e) \<le> (2 :: real) powi 1024"
    using me(3) by (intro power_int_increasing) simp_all
  then have small: "\<bar>x\<bar> < double_limit" using lt unfolding double_limit_def by simp
  have "to_double x =
      (if double_limit \<le> \<bar>sgn x * of_int (\<bar>m\<bar> * 2 ^ d) * 2 powi ulp_exponent x\<bar>
       then Inl OverflowError
       else Inr (sgn x * of_int (\<bar>m\<bar> * 2 ^ d) * 2 powi ulp_exponent x))"
    using False by (simp only: to_double_def Let_def m if_False)
  then show ?thesis unfolding q using small by simp
qed



lemma round_half_even_floor: "\<lfloor>y\<rfloor> \<le> round_half_even y"
  by (simp add: round_half_even_def Let_def)

lemma to_double_overflow:
  assumes "2 powi 1024 \<le> \<bar>x\<bar>"
  shows "to_double x = Inl OverflowError"
proof -
  have pos: "0 < \<bar>x\<bar>" using assms zero_less_power_int [of "2::real" 1024] by linarith
  then have nz: "x \<noteq> 0" by simp
  define k where "k = \<lfloor>log 2 \<bar>x\<bar>\<rfloor>"
  have "log 2 (2 powi 1024) \<le> log 2 \<bar>x\<bar>" using assms pos by simp
  moreover have "log 2 (2 powi 1024) = 1024"
    using log_powr_cancel [of 2 "real_of_int 1024"] by (simp add: powr_real_of_int')
  ultimately have k: "1024 \<le> k" unfolding k_def by linarith
  then have e: "ulp_exponent x = k - 52" by (simp add: ulp_exponent_def k_def)
  have "2 powr real_of_int k \<le> \<bar>x\<bar>"
    using floor_log_eq_powr_iff [of "\<bar>x\<bar>" 2 k] pos by (simp add: k_def)
  then have low: "2 powi k \<le> \<bar>x\<bar>" by (simp add: powr_real_of_int')
  define m where "m = round_half_even (\<bar>x\<bar> / 2 powi (k - 52))"
  have "(2 :: real) powi 52 = 2 powi k / 2 powi (k - 52)" by (simp add: power_int_diff)
  also have "\<dots> \<le> \<bar>x\<bar> / 2 powi (k - 52)" using low by (simp add: divide_right_mono)
  finally have "(2 :: int) ^ 52 \<le> \<lfloor>\<bar>x\<bar> / 2 powi (k - 52)\<rfloor>" by (simp add: le_floor_iff)
  then have m: "2 ^ 52 \<le> m" using round_half_even_floor [of "\<bar>x\<bar> / 2 powi (k - 52)"]
    unfolding m_def by linarith
  then have "(2 :: real) ^ 52 \<le> of_int m" by (metis of_int_numeral of_int_power of_int_le_iff)
  then have "2 ^ 52 * 2 powi (k - 52) \<le> of_int m * (2 :: real) powi (k - 52)"
    by (intro mult_right_mono) simp_all
  moreover have "(2 :: real) ^ 52 * 2 powi (k - 52) = 2 powi k" by (simp add: power_int_diff)
  moreover have "(2 :: real) powi 1024 \<le> 2 powi k" using k by (intro power_int_increasing) simp_all
  ultimately have "2 powi 1024 \<le> of_int m * (2 :: real) powi (k - 52)" by linarith
  moreover have "0 \<le> m"
  proof -
    have "(0 :: int) \<le> 2 ^ 52" by simp
    with m show ?thesis by linarith
  qed
  ultimately have "double_limit \<le> \<bar>sgn x * of_int m * 2 powi (k - 52)\<bar>"
    using nz by (simp add: double_limit_def abs_mult abs_sgn_eq)
  then show ?thesis using nz by (simp add: to_double_def Let_def e m_def)
qed









subsection \<open>The sample refresh\<close>

lemmas sample_defs = sample_env_def sample_payload_def sample_hourly_def sample_daily_def
  sample_entry_def sample_provider_def sample_location_def CaiYunWeatherProvider_init_def
  wall_clock_def

lemmas provider_defs = invalidate_def weather_url_def get_api_url_def get_location_def
  sections_of_def current_weather_of_def parse_def parse_entry_def pick_at_def pick_def
  fromisoformat_of_def caiyun_get_day_of_def getitem_key_def getitem_index_def
  contains_key_def py_len_def py_int_def int_float_def bind_err_def

lemma sample_days:
  "caiyun_get_day ''CLOUDY'' = CLOUDY" "caiyun_get_day ''LIGHT_RAIN'' = LIGHTLY_RAINY"
  "caiyun_get_day ''thundersnow'' = UNKNOWN" "caiyun_get_day ''PARTLY_CLOUDY_DAY'' = CLOUDY"
  by code_simp+

lemma sample_indices: "[0..<2] = [0, 1]" "[0..<1] = [0]"
  by (simp_all add: upt_rec)

lemma sample_pressure_exact:
  "div100 (JInt 101325) = Inr (JFloat 1013.25)" "div100 (JFloat 101325) = Inr (JFloat 1013.25)"
proof -
  have "is_double 1013.25"
    unfolding is_double_def by (rule exI [of _ 4053], rule exI [of _ "- 2"]) simp
  then have "to_double 1013.25 = Inr 1013.25" by (rule to_double_exact)
  then show "div100 (JInt 101325) = Inr (JFloat 1013.25)"
    "div100 (JFloat 101325) = Inr (JFloat 1013.25)"
    by (simp_all add: div100_def)
qed


lemma sample_run_float:
  "invalidate (sample_env True (sample_payload (JInt 101325) (JFloat 2.7))) sample_provider 0
     = (Inr (sample_result (JFloat 1013.25) 2), 0)"
  by (simp add: sample_defs provider_defs sample_pressure_exact sample_days sample_indices
      sample_result_def)

lemma sample_run_int:
  "invalidate (sample_env True (sample_payload (JFloat 101325) (JInt 11))) sample_provider 0
     = (Inr (sample_result (JFloat 1013.25) 11), 0)"
  by (simp add: sample_defs provider_defs sample_pressure_exact sample_days sample_indices
      sample_result_def)


lemma sample_payload_of:
  "payload_of (sample_env True payload) sample_provider 0 = Inr payload"
  by (simp add: payload_of_def sample_env_def)

lemma sample_payload_fields:
  "payload_uv (sample_payload p uv) = Inr uv" "payload_pressure (sample_payload p uv) = Inr p"
  by (simp_all add: payload_uv_def payload_pressure_def payload_realtime_def sample_payload_def
      getitem_key_def bind_err_def)

subsection \<open>Metric entries\<close>

lemma pick_dict:
  "pick (JObj kvs) =
     (case map_of kvs ''value'' of
        Some v \<Rightarrow> Inr v
      | None \<Rightarrow> (case map_of kvs ''avg'' of Some a \<Rightarrow> Inr a | None \<Rightarrow> Inl (ValueError (JObj kvs))))"
  by (simp add: pick_def contains_key_def getitem_key_def bind_err_simps split: option.splits)

text \<open>
  C5. For a metric entry (a dict), \<^verbatim>\<open>pick\<close> returns the field \<open>value\<close> when the key is
  present, otherwise the field \<open>avg\<close> when that key is present, and otherwise raises
  \<^verbatim>\<open>ValueError\<close> with the entry (the parse error the specification calls MalformedMetric)
  rather than a default: the entry \<open>{"avg": 5}\<close> gives 5 and the entry \<open>{}\<close> raises.
\<close>

theorem pick_value_then_avg:
  "(map_of kvs ''value'' = Some v \<longrightarrow> pick (JObj kvs) = Inr v)
   \<and> (map_of kvs ''value'' = None \<and> map_of kvs ''avg'' = Some a \<longrightarrow> pick (JObj kvs) = Inr a)
   \<and> (map_of kvs ''value'' = None \<and> map_of kvs ''avg'' = None
        \<longrightarrow> pick (JObj kvs) = Inl (ValueError (JObj kvs)))
   \<and> pick (JObj [(''avg'', JInt 5)]) = Inr (JInt 5)
   \<and> pick (JObj []) = Inl (ValueError (JObj []))"
  by (simp add: pick_dict)

theorem pick_value_then_avg_witness:
  "map_of [(''value'', JInt 3), (''avg'', JInt 5)] ''value'' = Some (JInt 3)
   \<and> pick (JObj [(''value'', JInt 3), (''avg'', JInt 5)]) = Inr (JInt 3)
   \<and> map_of [(''date'', JStr ''2026-01-01''), (''avg'', JInt 5)] ''value'' = None
   \<and> map_of [(''date'', JStr ''2026-01-01''), (''avg'', JInt 5)] ''avg'' = Some (JInt 5)
   \<and> pick (JObj [(''date'', JStr ''2026-01-01''), (''avg'', JInt 5)]) = Inr (JInt 5)
   \<and> map_of [(''max'', JInt 9)] ''value'' = None \<and> map_of [(''max'', JInt 9)] ''avg'' = None
   \<and> pick (JObj [(''max'', JInt 9)]) = Inl (ValueError (JObj [(''max'', JInt 9)]))"
  using pick_value_then_avg [of "[(''value'', JInt 3), (''avg'', JInt 5)]" "JInt 3" "JInt 5"]
    pick_value_then_avg [of "[(''date'', JStr ''2026-01-01''), (''avg'', JInt 5)]" "JInt 3" "JInt 5"]
    pick_value_then_avg [of "[(''max'', JInt 9)]" "JInt 3" "JInt 5"]
  by simp

subsection \<open>A response that is not OK\<close>

text \<open>
  C7. When the response of the request is not OK, \<^verbatim>\<open>invalidate\<close> raises
  \<^verbatim>\<open>IOError\<close> (the transport error the specification calls UpstreamUnavailable) and
  returns no records; the decoder, the local clock and the parsers of timestamps and
  integers have no part in it, since replacing them changes nothing.
\<close>

theorem invalidate_not_ok:
  "requests_get env (weather_url env self) u = (Inr resp, u1) \<Longrightarrow> \<not> ok resp \<Longrightarrow>
   invalidate env self u = (Inl (IOError ''Realtime API not responding''), u1)
   \<and> invalidate (env\<lparr>json_loads := loads_of, pytime_localtime := local_of, fromisoformat := iso_of,
                      int_str := int_of\<rparr>) self u
       = (Inl (IOError ''Realtime API not responding''), u1)"
  by (simp add: invalidate_def weather_url_def get_api_url_def)

theorem invalidate_not_ok_witness:
  "requests_get (sample_env False (sample_payload (JInt 101325) (JFloat 2.7)))
       (weather_url (sample_env False (sample_payload (JInt 101325) (JFloat 2.7))) sample_provider) 0
     = (Inr \<lparr>ok = False, response_text = ''payload''\<rparr>, 0)
   \<and> \<not> ok \<lparr>ok = False, response_text = ''payload''\<rparr>
   \<and> invalidate (sample_env False (sample_payload (JInt 101325) (JFloat 2.7))) sample_provider 0
     = (Inl (IOError ''Realtime API not responding''), 0)"
proof -
  have req: "requests_get (sample_env False (sample_payload (JInt 101325) (JFloat 2.7)))
       (weather_url (sample_env False (sample_payload (JInt 101325) (JFloat 2.7))) sample_provider) 0
     = (Inr \<lparr>ok = False, response_text = ''payload''\<rparr>, 0)"
    by (simp add: sample_env_def)
  have down: "\<not> ok \<lparr>ok = False, response_text = ''payload''\<rparr>" by simp
  show ?thesis using invalidate_not_ok [OF req down] req by simp
qed

subsection \<open>Order of the records\<close>

text \<open>
  C6. Every successful \<^verbatim>\<open>invalidate\<close> returns the one record built from the realtime
  section, then the records parsed from the hourly section, then those parsed from the daily
  section: the first has effect \<open>CURRENT\<close>, the next all \<open>HOURLY\<close>, the last all \<open>DAILY\<close>, so
  the sequence is ordered current, hourly, daily.
\<close>

theorem invalidate_order:
  assumes "invalidate env self u = (Inr ws, u')"
  shows "(\<exists>api rt rh rd now c hs ds.
            payload_of env self u = Inr api \<and> sections_of api = Inr (rt, rh, rd)
            \<and> current_weather_of env now rt = Inr c
            \<and> parse env [] rh HOURLY = Inr hs \<and> parse env [] rd DAILY = Inr ds
            \<and> ws = [c] @ hs @ ds
            \<and> effect c = CURRENT
            \<and> (\<forall>h \<in> set hs. effect h = HOURLY) \<and> (\<forall>d \<in> set ds. effect d = DAILY))
         \<and> sorted (map (\<lambda>w. effect_rank (effect w)) ws)"
proof -
  from invalidate_success [OF assms] obtain resp u1 api rt rh rd now c hs ds where
    run: "requests_get env (weather_url env self) u = (Inr resp, u1)"
      "json_loads env (response_text resp) = Inr api"
      "sections_of api = Inr (rt, rh, rd)"
      "current_weather_of env now rt = Inr c"
      "parse env [] rh HOURLY = Inr hs" "parse env [] rd DAILY = Inr ds" "ws = [c] @ hs @ ds"
    by blast
  have payload: "payload_of env self u = Inr api"
    using run(1,2) by (simp add: payload_of_def)
  have c: "effect c = CURRENT" using current_weather_fields [OF run(4)] by simp
  have hs: "\<forall>h \<in> set hs. effect h = HOURLY" using parse_records [OF run(5)] by simp
  have ds: "\<forall>d \<in> set ds. effect d = DAILY" using parse_records [OF run(6)] by simp
  have "sorted (map (\<lambda>w. effect_rank (effect w)) ([c] @ hs @ ds))"
    using c hs ds sorted_constant [of hs "\<lambda>w. effect_rank (effect w)" 1]
      sorted_constant [of ds "\<lambda>w. effect_rank (effect w)" 2]
    by (auto simp: sorted_append)
  with payload run(3-7) c hs ds show ?thesis by blast
qed

theorem invalidate_order_witness:
  "invalidate (sample_env True (sample_payload (JInt 101325) (JFloat 2.7))) sample_provider 0
     = (Inr (sample_result (JFloat 1013.25) 2), 0)
   \<and> map effect (sample_result (JFloat 1013.25) 2) = [CURRENT, HOURLY, HOURLY, DAILY]
   \<and> sorted (map (\<lambda>w. effect_rank (effect w)) (sample_result (JFloat 1013.25) 2))"
  using invalidate_order [OF sample_run_float] sample_run_float
  by (simp add: sample_result_def)

subsection \<open>The UV index\<close>

text \<open>
  C4 as stated fails in two places. A payload index of 2.7 is stored as 2, while the nearest
  integer is 3: \<^verbatim>\<open>int\<close> discards the fraction. A payload index of 11 is stored as 11,
  outside the range from 0 to 10: the value is not bounded.
\<close>

theorem invalidate_uv_counterexample:
  "invalidate (sample_env True (sample_payload (JInt 101325) (JFloat 2.7))) sample_provider 0
     = (Inr (sample_result (JFloat 1013.25) 2), 0)
   \<and> payload_uv (sample_payload (JInt 101325) (JFloat 2.7)) = Inr (JFloat 2.7)
   \<and> effect (hd (sample_result (JFloat 1013.25) 2)) = CURRENT
   \<and> uv_index (hd (sample_result (JFloat 1013.25) 2)) = 2
   \<and> round (2.7 :: real) = (3 :: int)
   \<and> invalidate (sample_env True (sample_payload (JFloat 101325) (JInt 11))) sample_provider 0
     = (Inr (sample_result (JFloat 1013.25) 11), 0)
   \<and> payload_uv (sample_payload (JFloat 101325) (JInt 11)) = Inr (JInt 11)
   \<and> uv_index (hd (sample_result (JFloat 1013.25) 11)) = 11
   \<and> \<not> (uv_index (hd (sample_result (JFloat 1013.25) 11)) \<le> 10)"
proof -
  have "round (2.7 :: real) = (3 :: int)" by (simp add: round_def)
  then show ?thesis
    by (simp add: sample_run_float sample_run_int sample_payload_fields sample_result_def)
qed

text \<open>
  C4, amended. In the sequence a successful \<^verbatim>\<open>invalidate\<close> returns, every \<open>HOURLY\<close> and
  every \<open>DAILY\<close> record has \<open>uv_index\<close> equal to \<open>- 1\<close>; the first record is the only
  \<open>CURRENT\<close> one, and its \<open>uv_index\<close> is \<^verbatim>\<open>int\<close> of the payload's nested life-index
  ultraviolet index: the index itself when it is an integer, the index with its fraction
  discarded (rounded toward zero) when it is a float, which lies between 0 and 10 when the
  index is at least 0 and below 11.
\<close>

theorem invalidate_uv_index:
  assumes "invalidate env self u = (Inr ws, u')"
  shows "ws \<noteq> [] \<and> effect (hd ws) = CURRENT \<and> (\<forall>w \<in> set (tl ws). effect w \<noteq> CURRENT)
    \<and> (\<forall>w \<in> set ws. effect w = HOURLY \<or> effect w = DAILY \<longrightarrow> uv_index w = - 1)
    \<and> (\<exists>api raw. payload_of env self u = Inr api \<and> payload_uv api = Inr raw
          \<and> py_int env raw = Inr (uv_index (hd ws))
          \<and> (\<forall>i. raw = JInt i \<longrightarrow> uv_index (hd ws) = i)
          \<and> (\<forall>r. raw = JFloat r \<longrightarrow>
                uv_index (hd ws) = (if 0 \<le> r then \<lfloor>r\<rfloor> else \<lceil>r\<rceil>)
                \<and> (0 \<le> r \<and> r < 11 \<longrightarrow> 0 \<le> uv_index (hd ws) \<and> uv_index (hd ws) \<le> 10)))"
proof -
  from invalidate_success [OF assms] obtain resp u1 api rt rh rd now c hs ds where
    run: "requests_get env (weather_url env self) u = (Inr resp, u1)"
      "json_loads env (response_text resp) = Inr api"
      "sections_of api = Inr (rt, rh, rd)"
      "current_weather_of env now rt = Inr c"
      "parse env [] rh HOURLY = Inr hs" "parse env [] rd DAILY = Inr ds" "ws = [c] @ hs @ ds"
    by blast
  have payload: "payload_of env self u = Inr api"
    using run(1,2) by (simp add: payload_of_def)
  have c: "effect c = CURRENT" using current_weather_fields [OF run(4)] by simp
  have hs: "\<forall>h \<in> set hs. effect h = HOURLY \<and> uv_index h = - 1" by (rule parse_records [OF run(5)])
  have ds: "\<forall>d \<in> set ds. effect d = DAILY \<and> uv_index d = - 1" by (rule parse_records [OF run(6)])
  from current_weather_fields [OF run(4)] obtain li uvo raw where
    path: "getitem_key rt ''life_index'' = Inr li" "getitem_key li ''ultraviolet'' = Inr uvo"
      "getitem_key uvo ''index'' = Inr raw" and uv: "py_int env raw = Inr (uv_index c)"
    by blast
  have field: "payload_uv api = Inr raw"
    using sections_of_realtime [OF run(3)] path by (simp add: payload_uv_def bind_err_def)
  have hd: "hd ws = c" and tl: "tl ws = hs @ ds" using run(7) by simp_all
  have first: "ws \<noteq> [] \<and> effect (hd ws) = CURRENT \<and> (\<forall>w \<in> set (tl ws). effect w \<noteq> CURRENT)"
    using c hs ds run(7) unfolding hd tl by auto
  have later: "\<forall>w \<in> set ws. effect w = HOURLY \<or> effect w = DAILY \<longrightarrow> uv_index w = - 1"
    using c hs ds run(7) by auto
  have as_int: "\<forall>i. raw = JInt i \<longrightarrow> uv_index c = i"
    using uv by (auto simp: py_int_def)
  have as_float: "\<forall>r. raw = JFloat r \<longrightarrow>
      uv_index c = (if 0 \<le> r then \<lfloor>r\<rfloor> else \<lceil>r\<rceil>)
      \<and> (0 \<le> r \<and> r < 11 \<longrightarrow> 0 \<le> uv_index c \<and> uv_index c \<le> 10)"
  proof (intro allI impI)
    fix r assume "raw = JFloat r"
    with uv have eq: "uv_index c = int_float r" by (simp add: py_int_def)
    show "uv_index c = (if 0 \<le> r then \<lfloor>r\<rfloor> else \<lceil>r\<rceil>)
      \<and> (0 \<le> r \<and> r < 11 \<longrightarrow> 0 \<le> uv_index c \<and> uv_index c \<le> 10)"
      using int_float_range [of r] unfolding eq by (simp add: int_float_def)
  qed
  show ?thesis
    using first later payload field uv as_int as_float unfolding hd by blast
qed

theorem invalidate_uv_index_witness:
  "invalidate (sample_env True (sample_payload (JInt 101325) (JFloat 2.7))) sample_provider 0
     = (Inr (sample_result (JFloat 1013.25) 2), 0)
   \<and> payload_uv (sample_payload (JInt 101325) (JFloat 2.7)) = Inr (JFloat 2.7)
   \<and> (0 :: real) \<le> 2.7 \<and> (2.7 :: real) < 11
   \<and> uv_index (hd (sample_result (JFloat 1013.25) 2)) = \<lfloor>2.7 :: real\<rfloor>
   \<and> 0 \<le> uv_index (hd (sample_result (JFloat 1013.25) 2))
   \<and> uv_index (hd (sample_result (JFloat 1013.25) 2)) \<le> 10
   \<and> map uv_index (tl (sample_result (JFloat 1013.25) 2)) = [- 1, - 1, - 1]"
proof -
  have tail: "map uv_index (tl (sample_result (JFloat 1013.25) 2)) = [- 1, - 1, - 1]"
    by (simp add: sample_result_def)
  from invalidate_uv_index [OF sample_run_float] obtain api raw where
    api: "payload_of (sample_env True (sample_payload (JInt 101325) (JFloat 2.7))) sample_provider 0
            = Inr api"
    and raw: "payload_uv api = Inr raw"
    and fl: "\<forall>r. raw = JFloat r \<longrightarrow>
        uv_index (hd (sample_result (JFloat 1013.25) 2)) = (if 0 \<le> r then \<lfloor>r\<rfloor> else \<lceil>r\<rceil>)
        \<and> (0 \<le> r \<and> r < 11 \<longrightarrow> 0 \<le> uv_index (hd (sample_result (JFloat 1013.25) 2))
              \<and> uv_index (hd (sample_result (JFloat 1013.25) 2)) \<le> 10)"
    by blast
  from api have "api = sample_payload (JInt 101325) (JFloat 2.7)"
    by (simp add: sample_payload_of)
  with raw have is_float: "raw = JFloat 2.7" by (simp add: sample_payload_fields)
  from fl [rule_format, OF is_float]
  have "uv_index (hd (sample_result (JFloat 1013.25) 2)) = \<lfloor>2.7 :: real\<rfloor>
      \<and> 0 \<le> uv_index (hd (sample_result (JFloat 1013.25) 2))
      \<and> uv_index (hd (sample_result (JFloat 1013.25) 2)) \<le> 10"
    by simp
  with tail sample_run_float sample_payload_fields show ?thesis by simp
qed

subsection \<open>The realtime pressure\<close>




subsection \<open>The direct provider\<close>

text \<open>
  C9. A direct provider constructed with a record \<open>w\<close> returns the one-element sequence
  \<open>[w]\<close> and is left as it was, on one call and on any number of calls in a row; the
  method reads no clock, makes no request and keeps no cache.
\<close>

theorem get_weather_direct_constant:
  "get_weather_direct (DirectWeatherProvider_init w loc) = ([w], DirectWeatherProvider_init w loc)
   \<and> get_weather_direct_times n (DirectWeatherProvider_init w loc)
       = (replicate n [w], DirectWeatherProvider_init w loc)"
proof -
  have one: "get_weather_direct self = ([weather self], self)" for self :: "'a DirectWeatherProvider"
    by (simp add: get_weather_direct_def)
  have many: "get_weather_direct_times n self = (replicate n [weather self], self)"
    for self :: "'a DirectWeatherProvider"
    by (induction n) (simp_all add: one)
  have w: "weather (DirectWeatherProvider_init w loc) = w"
    by (simp add: DirectWeatherProvider_init_def)
  show ?thesis using one [of "DirectWeatherProvider_init w loc"] many [of "DirectWeatherProvider_init w loc"]
    unfolding w by simp
qed

subsection \<open>The temperature unit of the CaiYun provider\<close>

lemma get_weather_unit:
  "temperature_unit (fst (snd (get_weather tt hook self u))) = temperature_unit self"
  by (simp add: get_weather_def Let_def split: option.splits prod.splits sum.splits)

text \<open>
  C10. Whatever location, API key and cache interval the constructor of the CaiYun provider
  is given, \<^verbatim>\<open>get_temperature_unit\<close> returns \<open>CELSIUS\<close>; the constructor takes no unit,
  and \<^verbatim>\<open>get_weather\<close> leaves the unit of a provider as it is.
\<close>

theorem caiyun_unit_celsius:
  "get_temperature_unit (CaiYunWeatherProvider_init loc key interval) = CELSIUS
   \<and> get_temperature_unit (fst (snd (get_weather_caiyun env (CaiYunWeatherProvider_init loc key interval) u))) = CELSIUS
   \<and> get_temperature_unit (fst (snd (get_weather_caiyun env self u))) = get_temperature_unit self"
  by (simp add: get_temperature_unit_def get_weather_caiyun_def get_weather_unit CaiYunWeatherProvider_init_def)

subsection \<open>The cache\<close>


lemma get_weather_stale:
  assumes "update_time self = Some t" "time_time u = (now, u1)"
    "\<not> now - t < cache_invalidation self"
    "time_time u1 = (stamp, u2)" "hook (self\<lparr>update_time := Some stamp\<rparr>) u2 = (r, u3)"
  shows "get_weather time_time hook self u =
    (case r of
       Inl e \<Rightarrow> (Inl e, self\<lparr>update_time := Some stamp\<rparr>, u3)
     | Inr d \<Rightarrow> (Inr (Some d), self\<lparr>update_time := Some stamp, cache := Some d\<rparr>, u3))"
  using assms by (simp add: get_weather_def split: sum.splits)


lemma counting_calls:
  "fst (snd (counting hook self (n, u))) = Suc n" "fst (snd (not_counting f (n, u))) = n"
  by (simp_all add: counting_def not_counting_def split: prod.splits)


lemmas cached_sample_defs = warm_provider_def cold_provider_def CachedWeatherProvider_init_def
  sample_location_def wall_clock_def upstream_ok_def upstream_down_def counting_def
  not_counting_def

text \<open>
  C1 does not hold of the code: the timestamp is stored before the hook runs. With an
  upstream that is down, the first call of a provider that has not fetched yet raises the
  hook's exception and leaves the timestamp 0 behind with no cached value; a call one second
  later is then taken for fresh and returns \<open>None\<close> without a request. Likewise a provider
  that fetched 7 at time 0 keeps 7 but takes the timestamp 12 of a failed refresh, and
  returns 7 at time 21 without a request. The exception does reach the caller and the
  cached value is not changed.
\<close>

theorem get_weather_failed_refresh:
  "get_weather (not_counting wall_clock) (counting upstream_down) cold_provider (0, 0)
     = (Inl (IOError ''Realtime API not responding''), cold_provider\<lparr>update_time := Some 0\<rparr>, 1, 0)
   \<and> update_time cold_provider = None
   \<and> get_weather (not_counting wall_clock) (counting upstream_ok)
       (cold_provider\<lparr>update_time := Some 0\<rparr>) (1, 1)
     = (Inr None, cold_provider\<lparr>update_time := Some 0\<rparr>, 1, 1)
   \<and> get_weather (not_counting wall_clock) (counting upstream_down) warm_provider (0, 12)
     = (Inl (IOError ''Realtime API not responding''), warm_provider\<lparr>update_time := Some 12\<rparr>, 1, 12)
   \<and> update_time warm_provider = Some 0
   \<and> get_weather (not_counting wall_clock) (counting upstream_ok)
       (warm_provider\<lparr>update_time := Some 12\<rparr>) (1, 21)
     = (Inr (Some 7), warm_provider\<lparr>update_time := Some 12\<rparr>, 1, 21)"
  by (simp add: get_weather_def cached_sample_defs)




end
